theory Spec2Isabelle
  imports Complex_Main
begin

section \<open>The frame endpoint of web/api/octoprint\_views.py\<close>

text \<open>
  The module receives one camera frame per request, asks the inference service for
  detections, updates the printer's prediction and then decides whether to alert or to
  pause. The model keeps the source's names. What the module imports from elsewhere in
  the repository (the \<open>Printer\<close> methods, \<open>lib.prediction\<close>, the settings) is either a
  parameter (record \<open>deps\<close>) or, for \<open>set_alert\<close> and \<open>pause_print\<close>, modelled from
  the specification and marked so.
\<close>

subsection \<open>Time\<close>

text \<open>
  A Python \<open>datetime\<close> has microsecond resolution: a point in time is the number of
  microseconds since the Unix epoch, a \<open>timedelta\<close> a number of microseconds.
  \<open>total_seconds\<close> divides by \<open>10^6\<close>. The source compares the quotient, a float, with
  120; the difference is a whole number of microseconds, so the nearest float of a
  quotient below 120 is below 120 too and the exact quotient decides the comparison.
\<close>

type_synonym datetime = int

definition fromtimestamp :: "int \<Rightarrow> datetime" where
  "fromtimestamp s = s * 1000000"

definition total_seconds :: "int \<Rightarrow> real" where
  "total_seconds d = real_of_int d / 1000000"

definition ALERT_COOLDOWN_SECONDS :: int where
  "ALERT_COOLDOWN_SECONDS = 120"

subsection \<open>Data model\<close>

datatype failure_action = NONE | ALERT | PAUSE

record print =
  print_id :: nat
  paused_at :: "datetime option"
  alerted_at :: "datetime option"
  alert_acknowledged_at :: "datetime option"
  alert_muted_at :: "datetime option"

record printer =
  printer_id :: nat
  watching :: bool
  action_on_failure :: failure_action
  detective_sensitivity :: real
  current_print :: "print option"

text \<open>A detection is \<open>[label, confidence, box]\<close>; \<open>d[1]\<close> is the confidence.\<close>

type_synonym detection = "string \<times> real \<times> real list"

text \<open>
  Calls to the collaborators, in the order they are made. \<open>Send_failure_alert\<close> carries
  the printer object it is handed, as it is at the moment of the call.
\<close>

datatype event =
    Save_file_obj string
  | Printer_pic_set nat string
  | Ml_api_get string
  | Prediction_save
  | Overlay_detections "detection list"
  | Printer_p_json_set nat int
  | Pause_command
  | Send_failure_alert printer bool bool
  | Print_num_predictions_incr nat

datatype error =
    MultiValueDictKeyError
  | StorageError
  | ConnectionError
  | HTTPError nat
  | MalformedReply
  | NotificationError
  | AttributeError

datatype response = Response_ok

text \<open>
  The state a request works on: the authenticated printer (with its current print), the
  printer's \<open>PrinterPrediction\<close> row if there is one, and the calls made so far.
\<close>

record 'p world =
  printer :: printer
  prediction :: "'p option"
  trace :: "event list"

text \<open>
  What the outside world answers during one request. \<open>now\<close> is the frame's time: the
  value of \<open>timezone.now()\<close> for this request. \<open>pic\<close> is \<open>request.FILES['pic']\<close>.
  \<open>raw_saved\<close> and \<open>tagged_saved\<close> are the results \<open>(internal_url, external_url)\<close> of
  the two \<open>save_file_obj\<close> calls, \<open>None\<close> when the storage raises. \<open>notifier_ok\<close> is
  false when \<open>send_failure_alert\<close> raises.
\<close>

datatype ml_reply =
    Connection_failed
  | Http_reply nat "detection list option"

record frame =
  now :: datetime
  pic :: "string option"
  raw_saved :: "(string \<times> string) option"
  tagged_saved :: "(string \<times> string) option"
  ml_reply :: ml_reply
  notifier_ok :: bool

text \<open>
  What the module imports from the rest of the repository and only calls:
  \<open>Printer.should_watch\<close>, \<open>Printer.actively_printing\<close>, \<open>lib.prediction.is_failing\<close>
  (prediction, sensitivity, escalating factor), \<open>update_prediction_with_detections\<close>, the
  row \<open>get_or_create\<close> makes when the printer has no prediction yet, and the constants
  \<open>settings.ESCALATING_FACTOR\<close> and \<open>VISUALIZATION_THRESH\<close>.
\<close>

record 'p deps =
  should_watch :: "printer \<Rightarrow> bool"
  actively_printing :: "printer \<Rightarrow> bool"
  is_failing :: "'p \<Rightarrow> real \<Rightarrow> real \<Rightarrow> bool"
  update_prediction_with_detections :: "'p \<Rightarrow> detection list \<Rightarrow> 'p"
  created_prediction :: "'p"
  ESCALATING_FACTOR :: real
  VISUALIZATION_THRESH :: real

definition emit :: "event \<Rightarrow> 'p world \<Rightarrow> 'p world" where
  "emit ev w = w\<lparr>trace := trace w @ [ev]\<rparr>"

subsection \<open>The alert policy\<close>

text \<open>
  \<open>x or default\<close> on an optional \<open>datetime\<close>: a \<open>datetime\<close> is always truthy, so the
  default stands in for \<open>None\<close> only.
\<close>

definition or_default :: "datetime option \<Rightarrow> datetime \<Rightarrow> datetime" where
  "or_default x d = (case x of None \<Rightarrow> d | Some t \<Rightarrow> t)"

definition alert_suppressed :: "datetime \<Rightarrow> printer \<Rightarrow> bool" where
  "alert_suppressed t p =
     (if \<not> watching p then True
      else case current_print p of
        None \<Rightarrow> True
      | Some cp \<Rightarrow>
          if alert_muted_at cp \<noteq> None then True
          else
            (let last_acknowledged = or_default (alert_acknowledged_at cp) (fromtimestamp 0)
             in total_seconds (t - last_acknowledged) < real_of_int ALERT_COOLDOWN_SECONDS))"

text \<open>
  Modelled from the spec: \<open>Printer.set_alert\<close> of \<open>app.models\<close>, which is not among the
  sources. The specification (4.3): the side effect of "mark alert fired" is to set
  \<open>alertedAt = now\<close>.
\<close>

definition set_alert :: "datetime \<Rightarrow> printer \<Rightarrow> printer" where
  "set_alert t p =
     p\<lparr>current_print := map_option (\<lambda>cp. cp\<lparr>alerted_at := Some t\<rparr>) (current_print p)\<rparr>"

text \<open>
  Modelled from the spec: \<open>Printer.pause_print\<close> of \<open>app.models\<close>, which is not among
  the sources. The specification (4.3): the side effect of pause is to invoke the external
  pause command and to set \<open>pausedAt = now\<close> if not already set.
\<close>

definition pause_print :: "datetime \<Rightarrow> 'p world \<Rightarrow> 'p world" where
  "pause_print t w =
     emit Pause_command
       (w\<lparr>printer := (printer w)\<lparr>current_print :=
            map_option
              (\<lambda>cp. cp\<lparr>paused_at := (case paused_at cp of None \<Rightarrow> Some t | Some t0 \<Rightarrow> Some t0)\<rparr>)
              (current_print (printer w))\<rparr>\<rparr>)"

text \<open>
  \<open>send_failure_alert(printer, is_warning, print_paused)\<close> of \<open>app.notifications\<close>: the
  call is recorded with the printer as it is then; it raises when the delivery fails.
\<close>

definition send_failure_alert :: "frame \<Rightarrow> bool \<Rightarrow> bool \<Rightarrow> 'p world \<Rightarrow> (error + unit) \<times> 'p world" where
  "send_failure_alert e is_warning print_paused w =
     (let w' = emit (Send_failure_alert (printer w) is_warning print_paused) w
      in if notifier_ok e then (Inr (), w') else (Inl NotificationError, w'))"

text \<open>
  Lines 37 to 62. Both functions read \<open>printer.current_print\<close> after the suppression
  check; without a current print Python would raise there, but \<open>alert_suppressed\<close> has
  returned \<open>True\<close> before (lemma \<open>not_suppressed_current_print\<close>).
\<close>

definition alert_if_needed :: "frame \<Rightarrow> 'p world \<Rightarrow> (error + unit) \<times> 'p world" where
  "alert_if_needed e w =
     (if alert_suppressed (now e) (printer w) then (Inr (), w)
      else case current_print (printer w) of
        None \<Rightarrow> (Inl AttributeError, w)
      | Some cp \<Rightarrow>
          (let last_acknowledged = or_default (alert_acknowledged_at cp) (fromtimestamp 1);
               last_alerted = or_default (alerted_at cp) (fromtimestamp 0)
           in if last_alerted > last_acknowledged then (Inr (), w)
              else send_failure_alert e True False
                     (w\<lparr>printer := set_alert (now e) (printer w)\<rparr>)))"

definition pause_if_needed :: "frame \<Rightarrow> 'p world \<Rightarrow> (error + unit) \<times> 'p world" where
  "pause_if_needed e w =
     (if alert_suppressed (now e) (printer w) then (Inr (), w)
      else case current_print (printer w) of
        None \<Rightarrow> (Inl AttributeError, w)
      | Some cp \<Rightarrow>
          (let last_acknowledged = or_default (alert_acknowledged_at cp) (fromtimestamp 1);
               last_alerted = or_default (alerted_at cp) (fromtimestamp 0)
           in if action_on_failure (printer w) = PAUSE \<and> paused_at cp = None then
                (let w1 = pause_print (now e) w;
                     w2 = w1\<lparr>printer := set_alert (now e) (printer w1)\<rparr>
                 in send_failure_alert e False True w2)
              else if \<not> last_alerted > last_acknowledged then
                send_failure_alert e False False
                  (w\<lparr>printer := set_alert (now e) (printer w)\<rparr>)
              else (Inr (), w)))"

subsection \<open>The request handler\<close>

text \<open>Lines 103 to 106: which of the two policy functions the scored frame calls.\<close>

datatype policy_call = Call_pause_if_needed | Call_alert_if_needed | No_call

definition failing_dispatch :: "'p deps \<Rightarrow> 'p \<Rightarrow> real \<Rightarrow> policy_call" where
  "failing_dispatch d pr sensitivity =
     (if is_failing d pr sensitivity (ESCALATING_FACTOR d) then Call_pause_if_needed
      else if is_failing d pr sensitivity 1 then Call_alert_if_needed
      else No_call)"

definition run_policy :: "policy_call \<Rightarrow> frame \<Rightarrow> 'p world \<Rightarrow> (error + unit) \<times> 'p world" where
  "run_policy c e w =
     (case c of
        Call_pause_if_needed \<Rightarrow> pause_if_needed e w
      | Call_alert_if_needed \<Rightarrow> alert_if_needed e w
      | No_call \<Rightarrow> (Inr (), w))"

text \<open>
  \<open>int(timezone.now().timestamp())\<close>: the whole seconds of the frame's time, truncated
  towards zero.
\<close>

definition pic_id_of :: "datetime \<Rightarrow> int" where
  "pic_id_of t = (if 0 \<le> t then t div 1000000 else - ((- t) div 1000000))"

text \<open>
  Lines 108 and 109: \<open>printer.current_print.id\<close> raises when there is no current print.
\<close>

definition count_prediction :: "'p world \<Rightarrow> (error + response) \<times> 'p world" where
  "count_prediction w =
     (case current_print (printer w) of
        None \<Rightarrow> (Inl AttributeError, w)
      | Some cp \<Rightarrow> (Inr Response_ok, emit (Print_num_predictions_incr (print_id cp)) w))"

text \<open>Line 94: the detections drawn on the tagged image.\<close>

definition detections_to_visualize :: "'p deps \<Rightarrow> detection list \<Rightarrow> detection list" where
  "detections_to_visualize d detections =
     filter (\<lambda>dt. fst (snd dt) > VISUALIZATION_THRESH d) detections"

text \<open>
  Lines 92 to 109: the tagged image is drawn, stored and published, the prediction is
  published, then the policy runs and the frame is counted. An exception of the policy
  ends the request.
\<close>

definition publish_and_decide :: "'p deps \<Rightarrow> frame \<Rightarrow> 'p \<Rightarrow> detection list \<Rightarrow> 'p world \<Rightarrow> (error + response) \<times> 'p world" where
  "publish_and_decide d e pr detections w =
     (let w0 = emit (Overlay_detections (detections_to_visualize d detections)) w;
          w1 = emit (Save_file_obj ''tagged'') w0
      in case tagged_saved e of
           None \<Rightarrow> (Inl StorageError, w1)
         | Some (_, external_url) \<Rightarrow>
             (let w2 = emit (Printer_pic_set (printer_id (printer w1)) external_url) w1;
                  w3 = emit (Printer_p_json_set (printer_id (printer w2)) (pic_id_of (now e))) w2;
                  (r, w4) = run_policy
                              (failing_dispatch d pr (detective_sensitivity (printer w3))) e w3
              in case r of
                   Inl err \<Rightarrow> (Inl err, w4)
                 | Inr _ \<Rightarrow> count_prediction w4))"

text \<open>
  Lines 83 to 90. \<open>internal_url\<close> is where the raw image was stored. A reply with status
  400 to 599 makes \<open>raise_for_status\<close> raise; a body that is not JSON or has no
  \<open>detections\<close> makes one of the next two lines raise.
\<close>

definition score_frame :: "'p deps \<Rightarrow> frame \<Rightarrow> string \<Rightarrow> 'p world \<Rightarrow> (error + response) \<times> 'p world" where
  "score_frame d e internal_url w =
     (let w1 = emit (Ml_api_get internal_url) w in
      case ml_reply e of
        Connection_failed \<Rightarrow> (Inl ConnectionError, w1)
      | Http_reply status body \<Rightarrow>
          if 400 \<le> status \<and> status < 600 then (Inl (HTTPError status), w1)
          else
            (case body of
               None \<Rightarrow> (Inl MalformedReply, w1)
             | Some detections \<Rightarrow>
                 (let pr0 = (case prediction w1 of None \<Rightarrow> created_prediction d | Some p \<Rightarrow> p);
                      pr = update_prediction_with_detections d pr0 detections;
                      w2 = emit Prediction_save (w1\<lparr>prediction := Some pr\<rparr>)
                  in publish_and_decide d e pr detections w2)))"

text \<open>
  Lines 69 to 81. The warning logged for a path outside \<open>/api/v1\<close> changes nothing of
  the state and is left out.
\<close>

definition post :: "'p deps \<Rightarrow> frame \<Rightarrow> 'p world \<Rightarrow> (error + response) \<times> 'p world" where
  "post d e w =
     (case pic e of
        None \<Rightarrow> (Inl MultiValueDictKeyError, w)
      | Some _ \<Rightarrow>
          (case raw_saved e of
             None \<Rightarrow> (Inl StorageError, emit (Save_file_obj ''raw'') w)
           | Some (internal_url, external_url) \<Rightarrow>
               (let w1 = emit (Save_file_obj ''raw'') w in
                if \<not> should_watch d (printer w1) \<or> \<not> actively_printing d (printer w1) then
                  (Inr Response_ok, emit (Printer_pic_set (printer_id (printer w1)) external_url) w1)
                else score_frame d e internal_url w1)))"

subsection \<open>Example inputs\<close>

text \<open>
  Stand-ins for the imported functions, used at the concrete inputs below only.
  \<open>failing_at k\<close> is a scorer that reports a failure at the escalating factor \<open>k\<close> and at
  no other; the theorems hold for every scorer.
\<close>

definition failing_at :: "real \<Rightarrow> 'p \<Rightarrow> real \<Rightarrow> real \<Rightarrow> bool" where
  "failing_at k pr sensitivity factor = (factor = k)"

definition example_deps :: "('p \<Rightarrow> real \<Rightarrow> real \<Rightarrow> bool) \<Rightarrow> 'p \<Rightarrow> 'p deps" where
  "example_deps scorer pr0 =
     \<lparr>should_watch = watching, actively_printing = (\<lambda>p. True), is_failing = scorer,
      update_prediction_with_detections = (\<lambda>pr ds. pr), created_prediction = pr0,
      ESCALATING_FACTOR = 5, VISUALIZATION_THRESH = 1 / 5\<rparr>"

definition example_print :: print where
  "example_print =
     \<lparr>print_id = 7, paused_at = None, alerted_at = None, alert_acknowledged_at = None,
      alert_muted_at = None\<rparr>"

definition example_printer :: printer where
  "example_printer =
     \<lparr>printer_id = 3, watching = True, action_on_failure = PAUSE,
      detective_sensitivity = 1 / 2, current_print = Some example_print\<rparr>"

definition example_world :: "unit world" where
  "example_world = \<lparr>printer = example_printer, prediction = None, trace = []\<rparr>"

definition example_frame :: frame where
  "example_frame =
     \<lparr>now = 1600000000000000, pic = Some ''jpeg'',
      raw_saved = Some (''int/raw'', ''ext/raw''),
      tagged_saved = Some (''int/tagged'', ''ext/tagged''),
      ml_reply = Http_reply 200 (Some [(''failure'', 9 / 10, [])]),
      notifier_ok = True\<rparr>"

text \<open>A print alerted at one time and acknowledged earlier: the alert is outstanding.\<close>

definition unacknowledged_print :: print where
  "unacknowledged_print =
     example_print\<lparr>alerted_at := Some 1500000000000000,
                   alert_acknowledged_at := Some 1400000000000000\<rparr>"

definition unacknowledged_world :: "unit world" where
  "unacknowledged_world =
     example_world\<lparr>printer := example_printer\<lparr>current_print := Some unacknowledged_print\<rparr>\<rparr>"

text \<open>
  A print alerted and acknowledged at the same microsecond, 120 seconds before the
  example frame, on a printer that alerts only.
\<close>

definition acknowledged_print :: print where
  "acknowledged_print =
     example_print\<lparr>alerted_at := Some 1599999880000000,
                   alert_acknowledged_at := Some 1599999880000000\<rparr>"

definition acknowledged_world :: "unit world" where
  "acknowledged_world =
     example_world\<lparr>printer := example_printer\<lparr>action_on_failure := ALERT,
                                               current_print := Some acknowledged_print\<rparr>\<rparr>"

definition alerting_world :: "unit world" where
  "alerting_world = example_world\<lparr>printer := example_printer\<lparr>action_on_failure := ALERT\<rparr>\<rparr>"

definition later_frame :: frame where
  "later_frame = example_frame\<lparr>now := 1600000005000000\<rparr>"

definition undelivered_frame :: frame where
  "undelivered_frame = example_frame\<lparr>notifier_ok := False\<rparr>"

definition unavailable_frame :: frame where
  "unavailable_frame = example_frame\<lparr>ml_reply := Http_reply 503 None\<rparr>"

definition unwatched_world :: "unit world" where
  "unwatched_world = example_world\<lparr>printer := example_printer\<lparr>watching := False\<rparr>\<rparr>"

definition idle_world :: "unit world" where
  "idle_world = example_world\<lparr>printer := example_printer\<lparr>current_print := None\<rparr>\<rparr>"

text \<open>A print acknowledged 60 seconds, and one acknowledged 121 seconds, before the example frame.\<close>

definition recently_acknowledged_printer :: printer where
  "recently_acknowledged_printer =
     example_printer\<lparr>current_print :=
        Some (example_print\<lparr>alert_acknowledged_at := Some (1600000000000000 - 60 * 1000000)\<rparr>)\<rparr>"

definition formerly_acknowledged_printer :: printer where
  "formerly_acknowledged_printer =
     example_printer\<lparr>current_print :=
        Some (example_print\<lparr>alert_acknowledged_at := Some (1600000000000000 - 121 * 1000000)\<rparr>)\<rparr>"

section \<open>Properties\<close>

lemmas example_defs = example_deps_def example_print_def example_printer_def example_world_def
  example_frame_def failing_at_def unacknowledged_print_def unacknowledged_world_def
  acknowledged_print_def acknowledged_world_def alerting_world_def later_frame_def
  undelivered_frame_def unavailable_frame_def unwatched_world_def idle_world_def
  recently_acknowledged_printer_def formerly_acknowledged_printer_def

lemmas model_defs = post_def score_frame_def publish_and_decide_def detections_to_visualize_def
  count_prediction_def run_policy_def failing_dispatch_def pause_if_needed_def
  alert_if_needed_def send_failure_alert_def pause_print_def set_alert_def alert_suppressed_def
  or_default_def emit_def fromtimestamp_def total_seconds_def ALERT_COOLDOWN_SECONDS_def
  pic_id_of_def

subsection \<open>Auxiliary facts\<close>

lemma total_seconds_cooldown:
  "total_seconds x < real_of_int ALERT_COOLDOWN_SECONDS \<longleftrightarrow> x < 120000000"
  by (simp add: total_seconds_def ALERT_COOLDOWN_SECONDS_def pos_divide_less_eq)

lemma alert_suppressed_iff:
  "alert_suppressed t p \<longleftrightarrow>
     (\<not> watching p \<or> current_print p = None \<or>
      (\<exists>cp. current_print p = Some cp \<and>
         (alert_muted_at cp \<noteq> None \<or>
          t - (case alert_acknowledged_at cp of None \<Rightarrow> 0 | Some a \<Rightarrow> a) < 120 * 1000000)))"
  by (auto simp: alert_suppressed_def total_seconds_cooldown or_default_def fromtimestamp_def
      split: option.splits)

lemma not_suppressed_current_print:
  "\<not> alert_suppressed t p \<Longrightarrow> \<exists>cp. current_print p = Some cp"
  by (auto simp: alert_suppressed_def split: option.splits if_splits)

lemma suppressed_alert_noop:
  "alert_suppressed (now e) (printer w) \<Longrightarrow> alert_if_needed e w = (Inr (), w)"
  by (simp add: alert_if_needed_def)

lemma suppressed_pause_noop:
  "alert_suppressed (now e) (printer w) \<Longrightarrow> pause_if_needed e w = (Inr (), w)"
  by (simp add: pause_if_needed_def)

lemma not_suppressed_cooldown:
  assumes "\<not> alert_suppressed t p" and "current_print p = Some cp"
  shows "or_default (alert_acknowledged_at cp) 0 + 120000000 \<le> t"
  using assms
  by (auto simp: alert_suppressed_def total_seconds_cooldown fromtimestamp_def
      split: if_splits)

lemma no_print_policy_noop:
  "current_print (printer w) = None \<Longrightarrow> run_policy c e w = (Inr (), w)"
  by (cases c) (simp_all add: run_policy_def alert_if_needed_def pause_if_needed_def
      alert_suppressed_def)

text \<open>The pause branch of \<open>pause_if_needed\<close>, lines 56 to 59, as one state change.\<close>

lemma pause_if_needed_pauses:
  assumes "\<not> alert_suppressed (now e) (printer w)"
    and "action_on_failure (printer w) = PAUSE"
    and "current_print (printer w) = Some cp"
    and "paused_at cp = None"
  shows "pause_if_needed e w =
      (if notifier_ok e then Inr () else Inl NotificationError,
       w\<lparr>printer := (printer w)\<lparr>current_print :=
              Some (cp\<lparr>paused_at := Some (now e), alerted_at := Some (now e)\<rparr>)\<rparr>,
          trace := trace w @
            [Pause_command,
             Send_failure_alert
               ((printer w)\<lparr>current_print :=
                  Some (cp\<lparr>paused_at := Some (now e), alerted_at := Some (now e)\<rparr>)\<rparr>)
               False True]\<rparr>)"
  using assms
  by (simp add: pause_if_needed_def pause_print_def set_alert_def send_failure_alert_def
      emit_def Let_def)

text \<open>
  The scored path when the storage and the inference service answer: everything up to
  the policy is fixed, the policy runs on the updated world, and the frame is counted
  unless the policy raised.
\<close>

lemma post_scored:
  assumes "should_watch d (printer w)"
    and "actively_printing d (printer w)"
    and "pic e = Some b"
    and "raw_saved e = Some (i, x)"
    and "ml_reply e = Http_reply status (Some ds)"
    and "\<not> (400 \<le> status \<and> status < 600)"
    and "tagged_saved e = Some (ti, tx)"
    and "pr = update_prediction_with_detections d
           (case prediction w of None \<Rightarrow> created_prediction d | Some p \<Rightarrow> p) ds"
    and "w5 = w\<lparr>prediction := Some pr,
           trace := trace w @
             [Save_file_obj ''raw'', Ml_api_get i, Prediction_save,
              Overlay_detections (detections_to_visualize d ds), Save_file_obj ''tagged'',
              Printer_pic_set (printer_id (printer w)) tx,
              Printer_p_json_set (printer_id (printer w)) (pic_id_of (now e))]\<rparr>"
  shows "post d e w =
     (case run_policy (failing_dispatch d pr (detective_sensitivity (printer w))) e w5 of
        (Inl err, w6) \<Rightarrow> (Inl err, w6)
      | (Inr u, w6) \<Rightarrow> count_prediction w6)"
  using assms
  by (auto simp: post_def score_frame_def publish_and_decide_def emit_def Let_def
      split: prod.splits sum.splits)

lemma post_no_print_fails:
  assumes "should_watch d (printer w)"
    and "actively_printing d (printer w)"
    and "current_print (printer w) = None"
  shows "\<exists>err. fst (post d e w) = Inl err"
  using assms
  by (auto simp: post_def score_frame_def publish_and_decide_def count_prediction_def
      no_print_policy_noop emit_def Let_def
      split: option.splits ml_reply.splits prod.splits sum.splits)

text \<open>
  The alert branch of the dispatch is reached only by a scorer that can fail at factor 1
  without failing at \<open>ESCALATING_FACTOR\<close>: were every failure at factor 1 a failure at
  \<open>ESCALATING_FACTOR\<close> too, \<open>alert_if_needed\<close> would never be called.
\<close>

lemma alert_branch_needs_tier_gap:
  assumes "\<And>pr s. is_failing d pr s 1 \<Longrightarrow> is_failing d pr s (ESCALATING_FACTOR d)"
  shows "failing_dispatch d pr s \<noteq> Call_alert_if_needed"
  using assms by (auto simp: failing_dispatch_def)

subsection \<open>The dispatch between the two tiers\<close>

text \<open>
  C1, as the code has it. For every scored frame, \<open>pause_if_needed\<close> is the function
  called exactly when \<open>is_failing\<close> holds at the escalating factor
  \<open>settings.ESCALATING_FACTOR\<close>, and \<open>alert_if_needed\<close> is the function called exactly
  when \<open>is_failing\<close> holds at factor 1 but not at \<open>ESCALATING_FACTOR\<close>; otherwise neither
  is called. The theorem says so of the dispatch, of the policy it runs, and of the whole
  request \<open>post\<close> once the storage and the inference service have answered: the request
  is the call of that policy function on the world with the prediction saved and
  published, followed by the count. The tiers are the other way round from the claim:
  the pause path has the configurable factor, the early-warning path has factor 1.
\<close>

theorem dispatch_tiers:
  "(failing_dispatch d pr s = Call_pause_if_needed \<longleftrightarrow> is_failing d pr s (ESCALATING_FACTOR d)) \<and>
   (failing_dispatch d pr s = Call_alert_if_needed \<longleftrightarrow>
      is_failing d pr s 1 \<and> \<not> is_failing d pr s (ESCALATING_FACTOR d)) \<and>
   run_policy (failing_dispatch d pr s) e w =
     (if is_failing d pr s (ESCALATING_FACTOR d) then pause_if_needed e w
      else if is_failing d pr s 1 then alert_if_needed e w
      else (Inr (), w)) \<and>
   (should_watch d (printer w) \<and> actively_printing d (printer w) \<and>
    pic e = Some b \<and> raw_saved e = Some (i, x) \<and>
    ml_reply e = Http_reply status (Some ds) \<and> \<not> (400 \<le> status \<and> status < 600) \<and>
    tagged_saved e = Some (ti, tx) \<and>
    pr = update_prediction_with_detections d
           (case prediction w of None \<Rightarrow> created_prediction d | Some p \<Rightarrow> p) ds \<and>
    s = detective_sensitivity (printer w) \<and>
    w5 = w\<lparr>prediction := Some pr,
           trace := trace w @
             [Save_file_obj ''raw'', Ml_api_get i, Prediction_save,
              Overlay_detections (detections_to_visualize d ds), Save_file_obj ''tagged'',
              Printer_pic_set (printer_id (printer w)) tx,
              Printer_p_json_set (printer_id (printer w)) (pic_id_of (now e))]\<rparr> \<longrightarrow>
    post d e w =
      (case (if is_failing d pr s (ESCALATING_FACTOR d) then pause_if_needed e w5
             else if is_failing d pr s 1 then alert_if_needed e w5
             else (Inr (), w5)) of
         (Inl err, w6) \<Rightarrow> (Inl err, w6)
       | (Inr u, w6) \<Rightarrow> count_prediction w6))"
proof (intro conjI impI)
  show "failing_dispatch d pr s = Call_pause_if_needed \<longleftrightarrow> is_failing d pr s (ESCALATING_FACTOR d)"
    by (simp add: failing_dispatch_def)
  show "failing_dispatch d pr s = Call_alert_if_needed \<longleftrightarrow>
      is_failing d pr s 1 \<and> \<not> is_failing d pr s (ESCALATING_FACTOR d)"
    by (simp add: failing_dispatch_def)
  show run: "run_policy (failing_dispatch d pr s) e w =
     (if is_failing d pr s (ESCALATING_FACTOR d) then pause_if_needed e w
      else if is_failing d pr s 1 then alert_if_needed e w
      else (Inr (), w))" for w :: "'a world"
    by (simp add: failing_dispatch_def run_policy_def)
  assume h: "should_watch d (printer w) \<and> actively_printing d (printer w) \<and>
    pic e = Some b \<and> raw_saved e = Some (i, x) \<and>
    ml_reply e = Http_reply status (Some ds) \<and> \<not> (400 \<le> status \<and> status < 600) \<and>
    tagged_saved e = Some (ti, tx) \<and>
    pr = update_prediction_with_detections d
           (case prediction w of None \<Rightarrow> created_prediction d | Some p \<Rightarrow> p) ds \<and>
    s = detective_sensitivity (printer w) \<and>
    w5 = w\<lparr>prediction := Some pr,
           trace := trace w @
             [Save_file_obj ''raw'', Ml_api_get i, Prediction_save,
              Overlay_detections (detections_to_visualize d ds), Save_file_obj ''tagged'',
              Printer_pic_set (printer_id (printer w)) tx,
              Printer_p_json_set (printer_id (printer w)) (pic_id_of (now e))]\<rparr>"
  then have sens: "detective_sensitivity (printer w) = s"
    by simp
  have "post d e w =
     (case run_policy (failing_dispatch d pr (detective_sensitivity (printer w))) e w5 of
        (Inl err, w6) \<Rightarrow> (Inl err, w6)
      | (Inr u, w6) \<Rightarrow> count_prediction w6)"
    using h by (intro post_scored [where b = b and i = i and x = x and status = status
          and ds = ds and ti = ti and tx = tx]) simp_all
  then show "post d e w =
      (case (if is_failing d pr s (ESCALATING_FACTOR d) then pause_if_needed e w5
             else if is_failing d pr s 1 then alert_if_needed e w5
             else (Inr (), w5)) of
         (Inl err, w6) \<Rightarrow> (Inl err, w6)
       | (Inr u, w6) \<Rightarrow> count_prediction w6)"
    by (simp only: sens run)
qed

text \<open>
  Two whole requests: a scorer failing at factor 5 only makes the pausing printer pause;
  a scorer failing at factor 1 only makes the alerting printer send a warning.
\<close>

theorem dispatch_tiers_witness:
  "post (example_deps (failing_at 5) ()) example_frame example_world =
     (Inr Response_ok,
      \<lparr>printer = example_printer\<lparr>current_print :=
           Some (example_print\<lparr>paused_at := Some 1600000000000000,
                                alerted_at := Some 1600000000000000\<rparr>)\<rparr>,
       prediction = Some (),
       trace =
         [Save_file_obj ''raw'', Ml_api_get ''int/raw'', Prediction_save,
          Overlay_detections [(''failure'', 9 / 10, [])],
          Save_file_obj ''tagged'', Printer_pic_set 3 ''ext/tagged'',
          Printer_p_json_set 3 1600000000, Pause_command,
          Send_failure_alert
            (example_printer\<lparr>current_print :=
               Some (example_print\<lparr>paused_at := Some 1600000000000000,
                                    alerted_at := Some 1600000000000000\<rparr>)\<rparr>) False True,
          Print_num_predictions_incr 7]\<rparr>) \<and>
   trace (snd (post (example_deps (failing_at 1) ()) example_frame alerting_world)) =
         [Save_file_obj ''raw'', Ml_api_get ''int/raw'', Prediction_save,
          Overlay_detections [(''failure'', 9 / 10, [])],
          Save_file_obj ''tagged'', Printer_pic_set 3 ''ext/tagged'',
          Printer_p_json_set 3 1600000000,
          Send_failure_alert
            (example_printer\<lparr>action_on_failure := ALERT, current_print :=
               Some (example_print\<lparr>alerted_at := Some 1600000000000000\<rparr>)\<rparr>) True False,
          Print_num_predictions_incr 7]"
  using
    dispatch_tiers [of "example_deps (failing_at 5) ()" "()" "1 / 2" example_frame example_world
      "''jpeg''" "''int/raw''" "''ext/raw''" 200 "[(''failure'', 9 / 10, [])]" "''int/tagged''"
      "''ext/tagged''"
      "example_world\<lparr>prediction := Some (),
           trace := 
             [Save_file_obj ''raw'', Ml_api_get ''int/raw'', Prediction_save,
              Overlay_detections [(''failure'', 9 / 10, [])], Save_file_obj ''tagged'',
              Printer_pic_set 3 ''ext/tagged'',
              Printer_p_json_set 3 1600000000]\<rparr>"]
    dispatch_tiers [of "example_deps (failing_at 1) ()" "()" "1 / 2" example_frame alerting_world
      "''jpeg''" "''int/raw''" "''ext/raw''" 200 "[(''failure'', 9 / 10, [])]" "''int/tagged''"
      "''ext/tagged''"
      "alerting_world\<lparr>prediction := Some (),
           trace := 
             [Save_file_obj ''raw'', Ml_api_get ''int/raw'', Prediction_save,
              Overlay_detections [(''failure'', 9 / 10, [])], Save_file_obj ''tagged'',
              Printer_pic_set 3 ''ext/tagged'',
              Printer_p_json_set 3 1600000000]\<rparr>"]
  by (simp add: example_defs model_defs Let_def)

text \<open>
  C1 as stated fails. With a scorer that fails at factor 1 only, the frame is failing at
  the factor-1 tier and the call is not \<open>pause_if_needed\<close>; with a scorer that fails at
  factor 5 only (\<open>ESCALATING_FACTOR = 5\<close>), the frame is failing at the factor-5 tier only
  and the call is not \<open>alert_if_needed\<close>. The whole request of the first case sends a
  warning and no pause command, on a printer set to pause.
\<close>

theorem dispatch_tiers_counterexample:
  "\<not> (is_failing (example_deps (failing_at 1) ()) () (1 / 2) 1 \<longrightarrow>
        failing_dispatch (example_deps (failing_at 1) ()) () (1 / 2) = Call_pause_if_needed) \<and>
   \<not> (is_failing (example_deps (failing_at 5) ()) () (1 / 2) 5 \<and>
        \<not> is_failing (example_deps (failing_at 5) ()) () (1 / 2) 1 \<longrightarrow>
        failing_dispatch (example_deps (failing_at 5) ()) () (1 / 2) = Call_alert_if_needed) \<and>
   action_on_failure (printer example_world) = PAUSE \<and>
   post (example_deps (failing_at 1) ()) example_frame example_world =
     (Inr Response_ok,
      \<lparr>printer = example_printer\<lparr>current_print :=
           Some (example_print\<lparr>alerted_at := Some 1600000000000000\<rparr>)\<rparr>,
       prediction = Some (),
       trace =
         [Save_file_obj ''raw'', Ml_api_get ''int/raw'', Prediction_save,
          Overlay_detections [(''failure'', 9 / 10, [])],
          Save_file_obj ''tagged'', Printer_pic_set 3 ''ext/tagged'',
          Printer_p_json_set 3 1600000000,
          Send_failure_alert
            (example_printer\<lparr>current_print :=
               Some (example_print\<lparr>alerted_at := Some 1600000000000000\<rparr>)\<rparr>) True False,
          Print_num_predictions_incr 7]\<rparr>)"
  by (simp add: example_defs model_defs Let_def)

subsection \<open>The suppression gate\<close>

text \<open>
  C2. \<open>alert_suppressed\<close> holds if and only if the printer is not watching, or has no
  current print, or the print is muted, or less than 120 seconds (120 000 000
  microseconds) have passed since \<open>alert_acknowledged_at\<close>, taken as the epoch when
  unset. When it holds, \<open>alert_if_needed\<close> and \<open>pause_if_needed\<close> return with the world
  as it was: no call in the trace, no timestamp changed, whatever the dispatch decided.
\<close>

theorem suppression_gate:
  "(alert_suppressed t p \<longleftrightarrow>
     (\<not> watching p \<or> current_print p = None \<or>
      (\<exists>cp. current_print p = Some cp \<and>
         (alert_muted_at cp \<noteq> None \<or>
          t - (case alert_acknowledged_at cp of None \<Rightarrow> 0 | Some a \<Rightarrow> a) < 120 * 1000000)))) \<and>
   (alert_suppressed (now e) (printer w) \<longrightarrow>
      alert_if_needed e w = (Inr (), w) \<and> pause_if_needed e w = (Inr (), w) \<and>
      (\<forall>c. run_policy c e w = (Inr (), w)))"
proof (intro conjI impI allI)
  show "alert_suppressed t p \<longleftrightarrow>
     (\<not> watching p \<or> current_print p = None \<or>
      (\<exists>cp. current_print p = Some cp \<and>
         (alert_muted_at cp \<noteq> None \<or>
          t - (case alert_acknowledged_at cp of None \<Rightarrow> 0 | Some a \<Rightarrow> a) < 120 * 1000000)))"
    by (rule alert_suppressed_iff)
next
  assume s: "alert_suppressed (now e) (printer w)"
  show "alert_if_needed e w = (Inr (), w)" using s by (rule suppressed_alert_noop)
  show "pause_if_needed e w = (Inr (), w)" using s by (rule suppressed_pause_noop)
  fix c
  show "run_policy c e w = (Inr (), w)"
    using s by (cases c) (simp_all add: run_policy_def suppressed_alert_noop suppressed_pause_noop)
qed

text \<open>
  Acknowledged 60 seconds ago: suppressed, and a failing frame on a pausing printer does
  nothing. Acknowledged 121 seconds ago: not suppressed.
\<close>

theorem suppression_gate_witness:
  "alert_suppressed 1600000000000000 recently_acknowledged_printer \<and>
   \<not> alert_suppressed 1600000000000000 formerly_acknowledged_printer \<and>
   action_on_failure recently_acknowledged_printer = PAUSE \<and>
   pause_if_needed example_frame (example_world\<lparr>printer := recently_acknowledged_printer\<rparr>) =
     (Inr (), example_world\<lparr>printer := recently_acknowledged_printer\<rparr>) \<and>
   alert_if_needed example_frame (example_world\<lparr>printer := recently_acknowledged_printer\<rparr>) =
     (Inr (), example_world\<lparr>printer := recently_acknowledged_printer\<rparr>)"
  using
    suppression_gate [of 1600000000000000 recently_acknowledged_printer example_frame
      "example_world\<lparr>printer := recently_acknowledged_printer\<rparr>"]
    suppression_gate [of 1600000000000000 formerly_acknowledged_printer example_frame
      example_world]
  by (simp add: example_defs)

subsection \<open>The pause branch\<close>

text \<open>
  C3. On a printer that is not suppressed, with \<open>action_on_failure = PAUSE\<close> and
  \<open>paused_at\<close> unset, \<open>pause_if_needed\<close> (the function the dispatch calls on a strictly
  failing frame) issues the pause command, sets \<open>paused_at\<close> and \<open>alerted_at\<close> to the
  frame's time and calls \<open>send_failure_alert\<close> with \<open>is_warning=False\<close> and
  \<open>print_paused=True\<close>. Nothing is assumed of \<open>alerted_at\<close> and of the acknowledgement
  beyond the cooldown, so the branch fires with an alert outstanding too.
\<close>

theorem pause_branch:
  assumes "\<not> alert_suppressed (now e) (printer w)"
    and "action_on_failure (printer w) = PAUSE"
    and "current_print (printer w) = Some cp"
    and "paused_at cp = None"
  shows "pause_if_needed e w =
      (if notifier_ok e then Inr () else Inl NotificationError,
       w\<lparr>printer := (printer w)\<lparr>current_print :=
              Some (cp\<lparr>paused_at := Some (now e), alerted_at := Some (now e)\<rparr>)\<rparr>,
          trace := trace w @
            [Pause_command,
             Send_failure_alert
               ((printer w)\<lparr>current_print :=
                  Some (cp\<lparr>paused_at := Some (now e), alerted_at := Some (now e)\<rparr>)\<rparr>)
               False True]\<rparr>)"
  using assms by (rule pause_if_needed_pauses)

text \<open>The branch at a print whose last alert is later than its last acknowledgement.\<close>

theorem pause_branch_witness:
  "\<not> alert_suppressed (now example_frame) (printer unacknowledged_world) \<and>
   action_on_failure (printer unacknowledged_world) = PAUSE \<and>
   current_print (printer unacknowledged_world) = Some unacknowledged_print \<and>
   paused_at unacknowledged_print = None \<and>
   or_default (alerted_at unacknowledged_print) (fromtimestamp 0)
     > or_default (alert_acknowledged_at unacknowledged_print) (fromtimestamp 1) \<and>
   pause_if_needed example_frame unacknowledged_world =
     (Inr (),
      unacknowledged_world\<lparr>printer := example_printer\<lparr>current_print :=
          Some (unacknowledged_print\<lparr>paused_at := Some 1600000000000000,
                                      alerted_at := Some 1600000000000000\<rparr>)\<rparr>,
        trace :=
          [Pause_command,
           Send_failure_alert
             (example_printer\<lparr>current_print :=
                Some (unacknowledged_print\<lparr>paused_at := Some 1600000000000000,
                                            alerted_at := Some 1600000000000000\<rparr>)\<rparr>)
             False True]\<rparr>)"
proof -
  have h1: "\<not> alert_suppressed (now example_frame) (printer unacknowledged_world)"
    by (simp add: example_defs alert_suppressed_def or_default_def total_seconds_def
        ALERT_COOLDOWN_SECONDS_def)
  have h2: "action_on_failure (printer unacknowledged_world) = PAUSE"
    by (simp add: example_defs)
  have h3: "current_print (printer unacknowledged_world) = Some unacknowledged_print"
    by (simp add: example_defs)
  have h4: "paused_at unacknowledged_print = None"
    by (simp add: example_defs)
  have h5: "or_default (alerted_at unacknowledged_print) (fromtimestamp 0)
     > or_default (alert_acknowledged_at unacknowledged_print) (fromtimestamp 1)"
    by (simp add: example_defs or_default_def)
  show ?thesis
    using h1 h2 h3 h4 h5 pause_branch [OF h1 h2 h3 h4]
    by (simp add: example_defs)
qed

subsection \<open>The re-alert gate\<close>

text \<open>
  C4, amended. After an alert has fired (\<open>alerted_at = t\<close>), while
  \<open>alert_acknowledged_at\<close> is strictly earlier than \<open>t\<close> (or unset, with \<open>t\<close> later than
  the epoch plus one second), a failing frame produces no notification and changes
  nothing, on the alert path and on the non-pause branch of the pause path. Once
  \<open>alert_acknowledged_at\<close> is \<open>t\<close> or later, a failing frame that is not suppressed
  alerts again. A print never alerted and never acknowledged is not blocked: its first
  failing frame that is not suppressed alerts.
\<close>

theorem realert_gate:
  assumes "current_print (printer w) = Some cp"
  shows
    "(alerted_at cp = Some t \<and>
        (alert_acknowledged_at cp = None \<and> fromtimestamp 1 < t \<or>
         (\<exists>a. alert_acknowledged_at cp = Some a \<and> a < t)) \<longrightarrow>
        alert_if_needed e w = (Inr (), w) \<and>
        (action_on_failure (printer w) \<noteq> PAUSE \<or> paused_at cp \<noteq> None \<longrightarrow>
           pause_if_needed e w = (Inr (), w))) \<and>
     (\<not> alert_suppressed (now e) (printer w) \<and>
        (alerted_at cp = None \<and> alert_acknowledged_at cp = None \<or>
         (\<exists>a. alerted_at cp = Some t \<and> alert_acknowledged_at cp = Some a \<and> t \<le> a)) \<longrightarrow>
        alert_if_needed e w =
          (if notifier_ok e then Inr () else Inl NotificationError,
           w\<lparr>printer := (printer w)\<lparr>current_print := Some (cp\<lparr>alerted_at := Some (now e)\<rparr>)\<rparr>,
             trace := trace w @
               [Send_failure_alert
                  ((printer w)\<lparr>current_print := Some (cp\<lparr>alerted_at := Some (now e)\<rparr>)\<rparr>)
                  True False]\<rparr>) \<and>
        (action_on_failure (printer w) \<noteq> PAUSE \<or> paused_at cp \<noteq> None \<longrightarrow>
           pause_if_needed e w =
             (if notifier_ok e then Inr () else Inl NotificationError,
              w\<lparr>printer := (printer w)\<lparr>current_print := Some (cp\<lparr>alerted_at := Some (now e)\<rparr>)\<rparr>,
                trace := trace w @
                  [Send_failure_alert
                     ((printer w)\<lparr>current_print := Some (cp\<lparr>alerted_at := Some (now e)\<rparr>)\<rparr>)
                     False False]\<rparr>)))"
proof (intro conjI impI)
  assume h: "alerted_at cp = Some t \<and>
        (alert_acknowledged_at cp = None \<and> fromtimestamp 1 < t \<or>
         (\<exists>a. alert_acknowledged_at cp = Some a \<and> a < t))"
  then have gate: "or_default (alerted_at cp) (fromtimestamp 0)
      > or_default (alert_acknowledged_at cp) (fromtimestamp 1)"
    by (auto simp: or_default_def)
  show "alert_if_needed e w = (Inr (), w)"
    using assms gate by (simp add: alert_if_needed_def Let_def)
  assume "action_on_failure (printer w) \<noteq> PAUSE \<or> paused_at cp \<noteq> None"
  then show "pause_if_needed e w = (Inr (), w)"
    using assms gate by (auto simp: pause_if_needed_def Let_def)
next
  assume h: "\<not> alert_suppressed (now e) (printer w) \<and>
        (alerted_at cp = None \<and> alert_acknowledged_at cp = None \<or>
         (\<exists>a. alerted_at cp = Some t \<and> alert_acknowledged_at cp = Some a \<and> t \<le> a))"
  then have gate: "\<not> or_default (alerted_at cp) (fromtimestamp 0)
      > or_default (alert_acknowledged_at cp) (fromtimestamp 1)"
    by (auto simp: or_default_def fromtimestamp_def)
  show "alert_if_needed e w =
          (if notifier_ok e then Inr () else Inl NotificationError,
           w\<lparr>printer := (printer w)\<lparr>current_print := Some (cp\<lparr>alerted_at := Some (now e)\<rparr>)\<rparr>,
             trace := trace w @
               [Send_failure_alert
                  ((printer w)\<lparr>current_print := Some (cp\<lparr>alerted_at := Some (now e)\<rparr>)\<rparr>)
                  True False]\<rparr>)"
    using assms gate h
    by (simp add: alert_if_needed_def Let_def set_alert_def send_failure_alert_def emit_def)
  assume "action_on_failure (printer w) \<noteq> PAUSE \<or> paused_at cp \<noteq> None"
  then show "pause_if_needed e w =
             (if notifier_ok e then Inr () else Inl NotificationError,
              w\<lparr>printer := (printer w)\<lparr>current_print := Some (cp\<lparr>alerted_at := Some (now e)\<rparr>)\<rparr>,
                trace := trace w @
                  [Send_failure_alert
                     ((printer w)\<lparr>current_print := Some (cp\<lparr>alerted_at := Some (now e)\<rparr>)\<rparr>)
                     False False]\<rparr>)"
    using assms gate h
    by (auto simp: pause_if_needed_def Let_def set_alert_def send_failure_alert_def emit_def)
qed

text \<open>
  An outstanding alert blocks; an alert acknowledged at its own time does not; nor do
  the defaults of a fresh print.
\<close>

theorem realert_gate_witness:
  "alert_if_needed example_frame unacknowledged_world = (Inr (), unacknowledged_world) \<and>
   fst (alert_if_needed example_frame acknowledged_world) = Inr () \<and>
   trace (snd (alert_if_needed example_frame acknowledged_world)) =
       [Send_failure_alert
          (example_printer\<lparr>action_on_failure := ALERT,
             current_print := Some (acknowledged_print\<lparr>alerted_at := Some 1600000000000000\<rparr>)\<rparr>)
          True False] \<and>
   trace (snd (pause_if_needed example_frame alerting_world)) =
       [Send_failure_alert
          (example_printer\<lparr>action_on_failure := ALERT,
             current_print := Some (example_print\<lparr>alerted_at := Some 1600000000000000\<rparr>)\<rparr>)
          False False]"
proof -
  have c1: "current_print (printer unacknowledged_world) = Some unacknowledged_print"
    by (simp add: example_defs)
  have c2: "current_print (printer acknowledged_world) = Some acknowledged_print"
    by (simp add: example_defs)
  have c3: "current_print (printer alerting_world) = Some example_print"
    by (simp add: example_defs)
  have s2: "\<not> alert_suppressed (now example_frame) (printer acknowledged_world)"
    by (simp add: example_defs alert_suppressed_def or_default_def total_seconds_def
        ALERT_COOLDOWN_SECONDS_def)
  have s3: "\<not> alert_suppressed (now example_frame) (printer alerting_world)"
    by (simp add: example_defs alert_suppressed_def or_default_def total_seconds_def
        ALERT_COOLDOWN_SECONDS_def fromtimestamp_def)
  show ?thesis
    using s2 s3
      realert_gate [OF c1, of 1500000000000000 example_frame]
      realert_gate [OF c2, of 1599999880000000 example_frame]
      realert_gate [OF c3, of 0 example_frame]
    by (simp add: example_defs fromtimestamp_def)
qed

text \<open>
  C4 as stated fails at the boundary. The print was alerted at \<open>t\<close> and its
  acknowledgement carries the same \<open>t\<close>, so no acknowledgement later than \<open>t\<close> has
  occurred; the frame 120 seconds after \<open>t\<close> is past the cooldown, and both paths send a
  further notification.
\<close>

theorem realert_gate_counterexample:
  "alerted_at acknowledged_print = Some 1599999880000000 \<and>
   alert_acknowledged_at acknowledged_print = Some 1599999880000000 \<and>
   current_print (printer acknowledged_world) = Some acknowledged_print \<and>
   now example_frame = 1599999880000000 + 120 * 1000000 \<and>
   trace (snd (alert_if_needed example_frame acknowledged_world)) =
     trace acknowledged_world @
       [Send_failure_alert
          (example_printer\<lparr>action_on_failure := ALERT,
             current_print := Some (acknowledged_print\<lparr>alerted_at := Some 1600000000000000\<rparr>)\<rparr>)
          True False] \<and>
   trace (snd (pause_if_needed example_frame acknowledged_world)) =
     trace acknowledged_world @
       [Send_failure_alert
          (example_printer\<lparr>action_on_failure := ALERT,
             current_print := Some (acknowledged_print\<lparr>alerted_at := Some 1600000000000000\<rparr>)\<rparr>)
          False False]"
  by (simp add: example_defs model_defs Let_def)

subsection \<open>Pausing once\<close>

text \<open>
  C5. On a printer with \<open>action_on_failure = PAUSE\<close> whose print is not yet paused, two
  consecutive strictly failing frames, the first not suppressed, issue the pause command
  exactly once: the first frame pauses and sets \<open>paused_at\<close>; the second, whenever it
  comes and whether or not the first notification was delivered, finds \<open>paused_at\<close> set
  and the first frame's alert unacknowledged, and does nothing.
\<close>

theorem pause_idempotent:
  assumes "action_on_failure (printer w) = PAUSE"
    and "current_print (printer w) = Some cp"
    and "paused_at cp = None"
    and "\<not> alert_suppressed (now e1) (printer w)"
    and "w1 = snd (pause_if_needed e1 w)"
    and "w2 = snd (pause_if_needed e2 w1)"
  shows "trace w1 = trace w @ [Pause_command, Send_failure_alert (printer w1) False True] \<and>
     current_print (printer w1) =
       Some (cp\<lparr>paused_at := Some (now e1), alerted_at := Some (now e1)\<rparr>) \<and>
     pause_if_needed e2 w1 = (Inr (), w1) \<and>
     current_print (printer w2) = current_print (printer w1) \<and>
     count_list (trace w2) Pause_command = count_list (trace w) Pause_command + 1"
proof -
  let ?cp1 = "cp\<lparr>paused_at := Some (now e1), alerted_at := Some (now e1)\<rparr>"
  let ?p1 = "(printer w)\<lparr>current_print := Some ?cp1\<rparr>"
  have w1: "w1 = w\<lparr>printer := ?p1,
      trace := trace w @ [Pause_command, Send_failure_alert ?p1 False True]\<rparr>"
    using pause_if_needed_pauses [OF assms(4) assms(1) assms(2) assms(3)] assms(5) by simp
  have cool: "or_default (alert_acknowledged_at cp) 0 + 120000000 \<le> now e1"
    using not_suppressed_cooldown [OF assms(4) assms(2)] .
  have gate: "or_default (alerted_at ?cp1) (fromtimestamp 0)
      > or_default (alert_acknowledged_at ?cp1) (fromtimestamp 1)"
    using cool by (cases "alert_acknowledged_at cp") (simp_all add: or_default_def fromtimestamp_def)
  have second: "pause_if_needed e2 w1 = (Inr (), w1)"
    using gate by (simp add: w1 pause_if_needed_def Let_def)
  then have w2: "w2 = w1" using assms(6) by simp
  show ?thesis
    using second w2 by (simp add: w1)
qed

text \<open>Two frames five seconds apart, neither suppressed: one pause command.\<close>

theorem pause_idempotent_witness:
  "\<not> alert_suppressed (now example_frame) (printer example_world) \<and>
   \<not> alert_suppressed (now later_frame) (printer (snd (pause_if_needed example_frame example_world))) \<and>
   count_list
     (trace (snd (pause_if_needed later_frame (snd (pause_if_needed example_frame example_world)))))
     Pause_command = 1 \<and>
   current_print
     (printer (snd (pause_if_needed later_frame (snd (pause_if_needed example_frame example_world))))) =
     Some (example_print\<lparr>paused_at := Some 1600000000000000, alerted_at := Some 1600000000000000\<rparr>)"
proof -
  have h1: "action_on_failure (printer example_world) = PAUSE"
    by (simp add: example_defs)
  have h2: "current_print (printer example_world) = Some example_print"
    by (simp add: example_defs)
  have h3: "paused_at example_print = None"
    by (simp add: example_defs)
  have h4: "\<not> alert_suppressed (now example_frame) (printer example_world)"
    by (simp add: example_defs alert_suppressed_def or_default_def total_seconds_def
        ALERT_COOLDOWN_SECONDS_def fromtimestamp_def)
  have t: "trace example_world = []"
    by (simp add: example_defs)
  have n: "now example_frame = 1600000000000000"
    by (simp add: example_frame_def)
  from pause_idempotent [OF h1 h2 h3 h4 refl refl, of later_frame]
  have r: "current_print (printer (snd (pause_if_needed example_frame example_world))) =
       Some (example_print\<lparr>paused_at := Some (now example_frame), alerted_at := Some (now example_frame)\<rparr>) \<and>
     pause_if_needed later_frame (snd (pause_if_needed example_frame example_world)) =
       (Inr (), snd (pause_if_needed example_frame example_world)) \<and>
     count_list
       (trace (snd (pause_if_needed later_frame (snd (pause_if_needed example_frame example_world)))))
       Pause_command = count_list (trace example_world) Pause_command + 1"
    by simp
  have w: "watching (printer (snd (pause_if_needed example_frame example_world)))"
    using pause_if_needed_pauses [OF h4 h1 h2 h3] by (simp add: example_defs)
  have s: "\<not> alert_suppressed (now later_frame)
      (printer (snd (pause_if_needed example_frame example_world)))"
    using r w
    by (simp add: alert_suppressed_def later_frame_def example_print_def example_frame_def
        or_default_def total_seconds_def ALERT_COOLDOWN_SECONDS_def fromtimestamp_def)
  show ?thesis
    using h4 s r t by (auto simp: n)
qed

subsection \<open>Frames that are not scored\<close>

text \<open>
  C7. For a printer that should not be watched or is not actively printing, the request
  leaves the printer, its print's timestamps and the prediction as they were, and calls
  nothing but the raw image store and the latest-snapshot publication: no inference
  call, no prediction save, no count. When the image is present and stored, the trace
  grows by exactly these two calls and the response is ok.
\<close>

theorem unwatched_frame:
  assumes "\<not> should_watch d (printer w) \<or> \<not> actively_printing d (printer w)"
  shows "printer (snd (post d e w)) = printer w \<and>
     prediction (snd (post d e w)) = prediction w \<and>
     (\<exists>evs. trace (snd (post d e w)) = trace w @ evs \<and>
        set evs \<subseteq> {Save_file_obj ''raw''} \<union> range (Printer_pic_set (printer_id (printer w)))) \<and>
     (\<forall>b i x. pic e = Some b \<and> raw_saved e = Some (i, x) \<longrightarrow>
        post d e w =
          (Inr Response_ok,
           w\<lparr>trace := trace w @
              [Save_file_obj ''raw'', Printer_pic_set (printer_id (printer w)) x]\<rparr>))"
  using assms
  by (auto simp: post_def emit_def Let_def split: option.splits)

theorem unwatched_frame_witness:
  "post (example_deps (failing_at 5) ()) example_frame unwatched_world =
     (Inr Response_ok,
      unwatched_world\<lparr>trace := [Save_file_obj ''raw'', Printer_pic_set 3 ''ext/raw'']\<rparr>)"
proof -
  have h: "\<not> should_watch (example_deps (failing_at 5) ()) (printer unwatched_world) \<or>
      \<not> actively_printing (example_deps (failing_at 5) ()) (printer unwatched_world)"
    by (simp add: example_defs)
  show ?thesis
    using unwatched_frame [OF h, of example_frame]
    by (simp add: example_defs)
qed

subsection \<open>Failure of the inference service\<close>

text \<open>
  C8. On the scored path, when the call to the inference service fails (the connection
  fails, or the reply has a status from 400 to 599, on which \<open>raise_for_status\<close>
  raises), the request ends with an error right after the call: the prediction, the
  printer and its print's timestamps are as before, and the trace holds the raw image
  store and the inference call only, so no policy ran and nothing was counted.
\<close>

theorem inference_failure_aborts:
  assumes "should_watch d (printer w)"
    and "actively_printing d (printer w)"
    and "pic e = Some b"
    and "raw_saved e = Some (i, x)"
    and "ml_reply e = Connection_failed \<or>
         (\<exists>status body. ml_reply e = Http_reply status body \<and> 400 \<le> status \<and> status < 600)"
  shows "\<exists>err. post d e w =
     (Inl err, w\<lparr>trace := trace w @ [Save_file_obj ''raw'', Ml_api_get i]\<rparr>)"
  using assms
  by (auto simp: post_def score_frame_def emit_def Let_def)

theorem inference_failure_aborts_witness:
  "post (example_deps (failing_at 5) ()) unavailable_frame example_world =
     (Inl (HTTPError 503),
      example_world\<lparr>trace := [Save_file_obj ''raw'', Ml_api_get ''int/raw'']\<rparr>)"
proof -
  have h1: "should_watch (example_deps (failing_at 5) ()) (printer example_world)"
    by (simp add: example_defs)
  have h2: "actively_printing (example_deps (failing_at 5) ()) (printer example_world)"
    by (simp add: example_defs)
  have h3: "pic unavailable_frame = Some ''jpeg''"
    by (simp add: example_defs)
  have h4: "raw_saved unavailable_frame = Some (''int/raw'', ''ext/raw'')"
    by (simp add: example_defs)
  have h5: "ml_reply unavailable_frame = Connection_failed \<or>
      (\<exists>status body. ml_reply unavailable_frame = Http_reply status body \<and>
         400 \<le> status \<and> status < 600)"
    by (simp add: example_defs)
  have f: "fst (post (example_deps (failing_at 5) ()) unavailable_frame example_world) =
      Inl (HTTPError 503)"
    by (simp add: example_defs post_def score_frame_def emit_def Let_def)
  show ?thesis
    using inference_failure_aborts [OF h1 h2 h3 h4 h5] f
    by (auto simp: example_defs)
qed

subsection \<open>Failure of the notifier\<close>

text \<open>
  C9. In every branch of \<open>alert_if_needed\<close> and \<open>pause_if_needed\<close> that calls
  \<open>send_failure_alert\<close>, the printer handed to the notifier already has \<open>alerted_at\<close>
  (and, in the pause branch, \<open>paused_at\<close>) set to the frame's time, and the printer the
  function leaves behind is that same printer whether the delivery succeeded or raised:
  a failed delivery rolls nothing back.
\<close>

theorem mutation_precedes_notification:
  "(alert_if_needed e w = (Inr (), w) \<or>
    (\<exists>cp. current_print (printer (snd (alert_if_needed e w))) = Some cp \<and>
       alerted_at cp = Some (now e) \<and>
       trace (snd (alert_if_needed e w)) =
         trace w @ [Send_failure_alert (printer (snd (alert_if_needed e w))) True False] \<and>
       fst (alert_if_needed e w) = (if notifier_ok e then Inr () else Inl NotificationError))) \<and>
   (pause_if_needed e w = (Inr (), w) \<or>
    (\<exists>cp. current_print (printer (snd (pause_if_needed e w))) = Some cp \<and>
       alerted_at cp = Some (now e) \<and>
       (trace (snd (pause_if_needed e w)) =
          trace w @ [Send_failure_alert (printer (snd (pause_if_needed e w))) False False] \<or>
        paused_at cp = Some (now e) \<and>
        trace (snd (pause_if_needed e w)) =
          trace w @ [Pause_command,
                     Send_failure_alert (printer (snd (pause_if_needed e w))) False True]) \<and>
       fst (pause_if_needed e w) = (if notifier_ok e then Inr () else Inl NotificationError)))"
proof (cases "alert_suppressed (now e) (printer w)")
  case True
  then show ?thesis by (simp add: suppressed_alert_noop suppressed_pause_noop)
next
  case False
  then obtain cp where cp: "current_print (printer w) = Some cp"
    using not_suppressed_current_print by blast
  have a: "alert_if_needed e w = (Inr (), w) \<or>
    (\<exists>cp. current_print (printer (snd (alert_if_needed e w))) = Some cp \<and>
       alerted_at cp = Some (now e) \<and>
       trace (snd (alert_if_needed e w)) =
         trace w @ [Send_failure_alert (printer (snd (alert_if_needed e w))) True False] \<and>
       fst (alert_if_needed e w) = (if notifier_ok e then Inr () else Inl NotificationError))"
    using False cp
    by (simp add: alert_if_needed_def Let_def set_alert_def send_failure_alert_def emit_def)
  have p: "pause_if_needed e w = (Inr (), w) \<or>
    (\<exists>cp. current_print (printer (snd (pause_if_needed e w))) = Some cp \<and>
       alerted_at cp = Some (now e) \<and>
       (trace (snd (pause_if_needed e w)) =
          trace w @ [Send_failure_alert (printer (snd (pause_if_needed e w))) False False] \<or>
        paused_at cp = Some (now e) \<and>
        trace (snd (pause_if_needed e w)) =
          trace w @ [Pause_command,
                     Send_failure_alert (printer (snd (pause_if_needed e w))) False True]) \<and>
       fst (pause_if_needed e w) = (if notifier_ok e then Inr () else Inl NotificationError))"
    using False cp
    by (simp add: pause_if_needed_def Let_def set_alert_def pause_print_def
        send_failure_alert_def emit_def)
  from a p show ?thesis by (rule conjI)
qed

text \<open>The notifier raises: the error comes back and the timestamps stay set.\<close>

theorem mutation_precedes_notification_witness:
  "fst (alert_if_needed undelivered_frame example_world) = Inl NotificationError \<and>
   current_print (printer (snd (alert_if_needed undelivered_frame example_world))) =
     Some (example_print\<lparr>alerted_at := Some 1600000000000000\<rparr>) \<and>
   fst (pause_if_needed undelivered_frame example_world) = Inl NotificationError \<and>
   current_print (printer (snd (pause_if_needed undelivered_frame example_world))) =
     Some (example_print\<lparr>paused_at := Some 1600000000000000, alerted_at := Some 1600000000000000\<rparr>)"
  using mutation_precedes_notification [of undelivered_frame example_world]
  by (simp add: example_defs model_defs Let_def)

subsection \<open>Counting the frame\<close>

text \<open>
  C10. On the scored path the request returns ok only if the printer has a current
  print. \<open>alert_suppressed\<close> accepts a printer without one (it answers \<open>True\<close>), so the
  policy does nothing, and the count that follows raises: with the storage and the
  inference service answering, the request of a printer without a current print ends in
  \<open>AttributeError\<close> after the prediction was saved and published, and nothing is counted.
\<close>

theorem counting_needs_current_print:
  assumes "should_watch d (printer w)"
    and "actively_printing d (printer w)"
  shows "(\<forall>r. fst (post d e w) = Inr r \<longrightarrow> current_print (printer w) \<noteq> None) \<and>
     (current_print (printer w) = None \<longrightarrow> alert_suppressed (now e) (printer w)) \<and>
     (current_print (printer w) = None \<and> pic e = Some b \<and> raw_saved e = Some (i, x) \<and>
      ml_reply e = Http_reply status (Some ds) \<and> \<not> (400 \<le> status \<and> status < 600) \<and>
      tagged_saved e = Some (ti, tx) \<longrightarrow>
        post d e w =
          (Inl AttributeError,
           w\<lparr>prediction := Some (update_prediction_with_detections d
                 (case prediction w of None \<Rightarrow> created_prediction d | Some p \<Rightarrow> p) ds),
             trace := trace w @
               [Save_file_obj ''raw'', Ml_api_get i, Prediction_save,
                Overlay_detections (detections_to_visualize d ds), Save_file_obj ''tagged'',
                Printer_pic_set (printer_id (printer w)) tx,
                Printer_p_json_set (printer_id (printer w)) (pic_id_of (now e))]\<rparr>))"
proof (intro conjI allI impI)
  fix r
  assume ok: "fst (post d e w) = Inr r"
  show "current_print (printer w) \<noteq> None"
  proof
    assume "current_print (printer w) = None"
    from post_no_print_fails [OF assms this, of e] ok show False by auto
  qed
next
  assume "current_print (printer w) = None"
  then show "alert_suppressed (now e) (printer w)"
    by (simp add: alert_suppressed_def)
next
  assume h: "current_print (printer w) = None \<and> pic e = Some b \<and> raw_saved e = Some (i, x) \<and>
      ml_reply e = Http_reply status (Some ds) \<and> \<not> (400 \<le> status \<and> status < 600) \<and>
      tagged_saved e = Some (ti, tx)"
  then show "post d e w =
          (Inl AttributeError,
           w\<lparr>prediction := Some (update_prediction_with_detections d
                 (case prediction w of None \<Rightarrow> created_prediction d | Some p \<Rightarrow> p) ds),
             trace := trace w @
               [Save_file_obj ''raw'', Ml_api_get i, Prediction_save,
                Overlay_detections (detections_to_visualize d ds), Save_file_obj ''tagged'',
                Printer_pic_set (printer_id (printer w)) tx,
                Printer_p_json_set (printer_id (printer w)) (pic_id_of (now e))]\<rparr>)"
    using assms
    by (simp add: post_scored [where b = b and i = i and x = x and status = status and ds = ds
          and ti = ti and tx = tx, OF assms]
        no_print_policy_noop count_prediction_def)
qed

theorem counting_needs_current_print_witness:
  "alert_suppressed (now example_frame) (printer idle_world) \<and>
   post (example_deps (failing_at 5) ()) example_frame idle_world =
     (Inl AttributeError,
      idle_world\<lparr>prediction := Some (),
        trace :=
          [Save_file_obj ''raw'', Ml_api_get ''int/raw'', Prediction_save,
           Overlay_detections [(''failure'', 9 / 10, [])],
           Save_file_obj ''tagged'', Printer_pic_set 3 ''ext/tagged'',
           Printer_p_json_set 3 1600000000]\<rparr>)"
proof -
  have h1: "should_watch (example_deps (failing_at 5) ()) (printer idle_world)"
    by (simp add: example_defs)
  have h2: "actively_printing (example_deps (failing_at 5) ()) (printer idle_world)"
    by (simp add: example_defs)
  show ?thesis
    using counting_needs_current_print [OF h1 h2, of example_frame "''jpeg''" "''int/raw''"
        "''ext/raw''" 200 "[(''failure'', 9 / 10, [])]" "''int/tagged''" "''ext/tagged''"]
    by (simp add: example_defs pic_id_of_def detections_to_visualize_def)
qed

end
